theory Spec2Isabelle
  imports Complex_Main "HOL-Library.AList" "HOL-Library.Char_ord" "HOL-Library.List_Lexorder"
begin

section \<open>Shared vocabulary\<close>

text \<open>
  The program is \<^verbatim>\<open>redcap_rand.py\<close>. Python exceptions are values: an exception that
  reaches the top level keeps its own name, one that an \<^verbatim>\<open>except\<close> clause answers with
  \<^verbatim>\<open>sys.exit(1)\<close> is \<open>SystemExit\<close>.
\<close>

datatype error = SystemExit | KeyError | ValueError | IndexError

text \<open>
  The module reads two field names from \<^verbatim>\<open>config\<close> at import time; every function
  that uses them takes the configuration as its first argument.
\<close>

record config =
  treatment_field :: string
  randomized_field :: string

text \<open>
  A Python \<^verbatim>\<open>dict\<close> keeps its keys in insertion order, and storing under a key that is
  already there keeps the key's place. An association list with \<open>AList.update\<close> behaves
  the same way, and \<open>map_of\<close> is the lookup.
\<close>

type_synonym ('k, 'v) dict = "('k \<times> 'v) list"

section \<open>Strings\<close>

text \<open>
  A string is a list of characters with code points below 256. \<open>is_space\<close> lists the
  characters of that range for which Python's \<^verbatim>\<open>str.isspace\<close> holds; \<^verbatim>\<open>str.strip()\<close>
  removes them from both ends.
\<close>

definition is_space :: "char \<Rightarrow> bool" where
  "is_space c = (of_char c \<in> set [9, 10, 11, 12, 13, 28, 29, 30, 31, 32, 133, 160 :: nat])"

definition strip :: "string \<Rightarrow> string" where
  "strip s = rev (dropWhile is_space (rev (dropWhile is_space s)))"

text \<open>\<^verbatim>\<open>s.split(d)\<close> for a separator of one character: one more piece than separators.\<close>

fun split_on :: "char \<Rightarrow> string \<Rightarrow> string list" where
  "split_on d [] = [[]]"
| "split_on d (c # cs) =
     (if c = d then [] # split_on d cs
      else (case split_on d cs of
              [] \<Rightarrow> [[c]]
            | w # ws \<Rightarrow> (c # w) # ws))"

section \<open>Codebook Translator: \<^verbatim>\<open>convert_codebook\<close>\<close>

record field =
  field_name :: string
  field_type :: string
  select_choices_or_calculations :: string

type_synonym codebook = "(string, (string, string) dict) dict"

text \<open>
  The inner loop over the pipe-separated pairs: \<^verbatim>\<open>kv_list[1]\<close> is the label and
  \<^verbatim>\<open>kv_list[0]\<close> the code, both stripped. A pair without a comma makes \<^verbatim>\<open>kv_list[1]\<close>
  raise IndexError, which the enclosing \<^verbatim>\<open>except\<close> turns into \<^verbatim>\<open>sys.exit(1)\<close>.
\<close>

fun convert_pairs :: "string list \<Rightarrow> (string, string) dict \<Rightarrow> error + (string, string) dict" where
  "convert_pairs [] temp_dict = Inr temp_dict"
| "convert_pairs (pair # pipe_split) temp_dict =
     (let kv_list = split_on CHR '','' pair
      in if length kv_list < 2 then Inl SystemExit
         else convert_pairs pipe_split
                (AList.update (strip (kv_list ! 1)) (strip (kv_list ! 0)) temp_dict))"

definition convert_choices :: "string \<Rightarrow> error + (string, string) dict" where
  "convert_choices spec = convert_pairs (split_on CHR ''|'' spec) []"

definition approved_field_types :: "string list" where
  "approved_field_types = [''dropdown'', ''radio'', ''checkbox'']"

text \<open>
  The choices a field is parsed with: the two synthesised specifications for yes/no and
  true/false fields, the field's own otherwise; \<open>None\<close> stands for \<^verbatim>\<open>continue\<close> on a
  field type that is not supported.
\<close>

definition field_choices :: "field \<Rightarrow> string option" where
  "field_choices obj =
     (if field_type obj = ''yesno'' then Some ''1, Yes | 0, No''
      else if field_type obj = ''truefalse'' then Some ''1, True | 0, False''
      else if field_type obj \<notin> set approved_field_types then None
      else Some (select_choices_or_calculations obj))"

fun convert_fields :: "config \<Rightarrow> field list \<Rightarrow> string list \<Rightarrow> codebook \<Rightarrow> error + codebook" where
  "convert_fields cfg [] criteria codebook = Inr codebook"
| "convert_fields cfg (obj # full_codebook) criteria codebook =
     (case field_choices obj of
        None \<Rightarrow> convert_fields cfg full_codebook criteria codebook
      | Some choices \<Rightarrow>
          if choices \<noteq> [] \<and>
             (field_name obj \<in> set criteria \<or> field_name obj = treatment_field cfg)
          then (case convert_choices choices of
                  Inl e \<Rightarrow> Inl e
                | Inr temp_dict \<Rightarrow>
                    convert_fields cfg full_codebook criteria
                      (AList.update (field_name obj) temp_dict codebook))
          else convert_fields cfg full_codebook criteria codebook)"

definition convert_codebook :: "config \<Rightarrow> field list \<Rightarrow> string list \<Rightarrow> error + codebook" where
  "convert_codebook cfg full_codebook criteria = convert_fields cfg full_codebook criteria []"

section \<open>Data frames\<close>

text \<open>
  A pandas DataFrame is its list of column names and its rows, each row holding one cell
  per column, in column order. \<open>cell\<close> reads a row by column name; the functions below
  raise KeyError for a name that is not a column before they read.
\<close>

record 'r frame =
  columns :: "string list"
  rows :: "'r list"

fun col_index :: "string list \<Rightarrow> string \<Rightarrow> nat" where
  "col_index [] c = 0"
| "col_index (x # xs) c = (if x = c then 0 else Suc (col_index xs c))"

definition cell :: "string list \<Rightarrow> 'a list \<Rightarrow> string \<Rightarrow> 'a" where
  "cell cols r c = r ! col_index cols c"

text \<open>\<^verbatim>\<open>tuple(row[less_criteria])\<close>: the cells of the named columns, in the order named.\<close>

definition key_of :: "string list \<Rightarrow> string list \<Rightarrow> 'a list \<Rightarrow> 'a list" where
  "key_of cols less_criteria r = map (cell cols r) less_criteria"

text \<open>\<^verbatim>\<open>df[c] = values\<close>: overwrite the column in place, or append it as a new last column.\<close>

definition set_cell :: "string list \<Rightarrow> string \<Rightarrow> 'a \<Rightarrow> 'a list \<Rightarrow> 'a list" where
  "set_cell cols c v r = (if c \<in> set cols then r[col_index cols c := v] else r @ [v])"

definition set_columns :: "string list \<Rightarrow> string \<Rightarrow> string list" where
  "set_columns cols c = (if c \<in> set cols then cols else cols @ [c])"

section \<open>Frequency Aggregator\<close>

text \<open>
  The allocation table as read from disk holds text or a missing value (\<open>None\<close>, pandas'
  NaN) in each cell. Line 243 of \<^verbatim>\<open>main\<close> replaces every missing value by the empty string,
  so from there on a cell is a string.
\<close>

definition replace_missing :: "string option \<Rightarrow> string" where
  "replace_missing v = (case v of None \<Rightarrow> [] | Some s \<Rightarrow> s)"

definition replace_na :: "string option list frame \<Rightarrow> string list frame" where
  "replace_na allocation_df =
     \<lparr>columns = columns allocation_df,
      rows = map (map replace_missing) (rows allocation_df)\<rparr>"

text \<open>
  A row of \<^verbatim>\<open>grouped_df\<close>: the cells of the grouping columns and the \<^verbatim>\<open>size\<close> column.
\<close>

record 'a grouped_row =
  g_cells :: "'a list"
  g_size :: nat

text \<open>
  Line 244, \<^verbatim>\<open>groupby(all columns, as_index=False, dropna=False).size()\<close>: one row per
  distinct row of the table, in sorted order (pandas sorts group keys, column by column),
  with the number of table rows equal to it. Grouping by no column raises ValueError.
\<close>

definition groupby_size :: "string list frame \<Rightarrow> error + string grouped_row frame" where
  "groupby_size allocation_df =
     (if columns allocation_df = [] then Inl ValueError
      else Inr \<lparr>columns = columns allocation_df,
                rows = map (\<lambda>g. \<lparr>g_cells = g, g_size = count_list (rows allocation_df) g\<rparr>)
                           (sort (remdups (rows allocation_df)))\<rparr>)"

section \<open>Probability Calculator: \<^verbatim>\<open>calculate_probabilities\<close>\<close>

text \<open>
  Probabilities are exact rationals here; the program computes them in 64-bit floating
  point, whose representation error is not part of the model. \<open>round3\<close> is
  \<^verbatim>\<open>round(x, 3)\<close> on the exact quotient: the nearest multiple of 1/1000, and the even
  one of the two when the quotient lies exactly halfway (Python decides such a case by
  the binary approximation of the quotient, which is exact only for a denominator that is
  a power of two).
\<close>

definition rint :: "rat \<Rightarrow> int" where
  "rint x =
     (let f = \<lfloor>x\<rfloor>; d = x - of_int f
      in if d < 1 / 2 then f
         else if 1 / 2 < d then f + 1
         else if even f then f else f + 1)"

definition round3 :: "rat \<Rightarrow> rat" where
  "round3 x = of_int (rint (x * 1000)) / 1000"

text \<open>
  A row of \<^verbatim>\<open>freq_df\<close>: a combination of criteria values (one cell per name in
  \<^verbatim>\<open>less_criteria\<close>) and the sum of the \<^verbatim>\<open>size\<close> column over the rows of \<^verbatim>\<open>grouped_df\<close>
  that carry it. Keys come out sorted.
\<close>

definition freq_rows :: "string list \<Rightarrow> string list \<Rightarrow> string grouped_row list \<Rightarrow> string grouped_row list" where
  "freq_rows cols less_criteria grouped =
     map (\<lambda>k. \<lparr>g_cells = k,
               g_size = sum_list (map g_size
                          (filter (\<lambda>g. key_of cols less_criteria (g_cells g) = k) grouped))\<rparr>)
         (sort (remdups (map (\<lambda>g. key_of cols less_criteria (g_cells g)) grouped)))"

text \<open>
  A row of \<^verbatim>\<open>mapped_df\<close>: the cells of the table's columns (and of the randomized field's
  column once it is set), the \<^verbatim>\<open>size\<close> column and the \<^verbatim>\<open>probability\<close> column.
\<close>

record 'a mapped_row =
  cells :: "'a list"
  size_col :: nat
  probability :: rat

text \<open>
  The test of the inner loop,
  \<^verbatim>\<open>all(row[col] == row2[col] for col in less_criteria)\<close>, with \<^verbatim>\<open>row\<close> from
  \<^verbatim>\<open>freq_df\<close> (columns \<^verbatim>\<open>less_criteria\<close>) and \<^verbatim>\<open>row2\<close> from \<^verbatim>\<open>grouped_df\<close>.
\<close>

definition criteria_match :: "string list \<Rightarrow> string list \<Rightarrow> string grouped_row \<Rightarrow> string grouped_row \<Rightarrow> bool" where
  "criteria_match cols less_criteria row row2 =
     list_all (\<lambda>col. cell less_criteria (g_cells row) col = cell cols (g_cells row2) col)
              less_criteria"

definition joined_rows :: "string list \<Rightarrow> string list \<Rightarrow> string grouped_row list \<Rightarrow> string grouped_row list \<Rightarrow> string mapped_row list" where
  "joined_rows cols less_criteria freq grouped =
     concat (map (\<lambda>row.
        map (\<lambda>row2. \<lparr>cells = g_cells row2, size_col = g_size row2,
                     probability = round3 (of_nat (g_size row2) / of_nat (g_size row))\<rparr>)
            (filter (criteria_match cols less_criteria row) grouped)) freq)"

text \<open>
  \<^verbatim>\<open>calculate_probabilities\<close>. Grouping by an unknown column raises KeyError and by no
  column ValueError; an empty \<^verbatim>\<open>mapped_df\<close> has no columns at all, so reading its
  treatment column raises KeyError, as does a table without that column. The last
  statement copies the treatment column into the randomized field's column.
\<close>

definition calculate_probabilities :: "config \<Rightarrow> string grouped_row frame \<Rightarrow> string list \<Rightarrow> error + string mapped_row frame" where
  "calculate_probabilities cfg grouped_df less_criteria =
     (if less_criteria = [] then Inl ValueError
      else if \<not> set less_criteria \<subseteq> set (columns grouped_df) then Inl KeyError
      else
        let cols = columns grouped_df;
            freq_df = freq_rows cols less_criteria (rows grouped_df);
            mapped = joined_rows cols less_criteria freq_df (rows grouped_df)
        in if mapped = [] \<or> treatment_field cfg \<notin> set cols then Inl KeyError
           else Inr \<lparr>columns = set_columns cols (randomized_field cfg),
                     rows = map (\<lambda>r. r\<lparr>cells := set_cell cols (randomized_field cfg)
                                             (cell cols (cells r) (treatment_field cfg)) (cells r)\<rparr>)
                                mapped\<rparr>)"

section \<open>Probability Index: \<^verbatim>\<open>create_probability_dict\<close>\<close>

type_synonym 'a probability_dict = "('a list, ('a, rat) dict) dict"

definition index_step :: "config \<Rightarrow> string list \<Rightarrow> string list \<Rightarrow> 'a mapped_row \<Rightarrow> 'a probability_dict \<Rightarrow> 'a probability_dict" where
  "index_step cfg cols less_criteria row probability_dict =
     (let key = key_of cols less_criteria (cells row);
          value_dict = (case map_of probability_dict key of None \<Rightarrow> [] | Some d \<Rightarrow> d);
          inner_key = cell cols (cells row) (randomized_field cfg);
          inner_value = probability row
      in AList.update key (AList.update inner_key inner_value value_dict) probability_dict)"

text \<open>
  The loop runs over the rows in order; reading a column the frame does not have raises
  KeyError at the first row, and a frame without rows gives the empty dictionary.
\<close>

definition create_probability_dict :: "config \<Rightarrow> 'a mapped_row frame \<Rightarrow> string list \<Rightarrow> error + 'a probability_dict" where
  "create_probability_dict cfg mapped_df less_criteria =
     (if rows mapped_df = [] then Inr []
      else if \<not> set less_criteria \<subseteq> set (columns mapped_df)
              \<or> randomized_field cfg \<notin> set (columns mapped_df) then Inl KeyError
      else Inr (fold (index_step cfg (columns mapped_df) less_criteria) (rows mapped_df) []))"


section \<open>Encoding Reconciler: \<^verbatim>\<open>convert_to_values\<close> and line 266\<close>

text \<open>
  \<^verbatim>\<open>translation_dict[column_name].get(x, None)\<close>: the code of a label, \<open>None\<close> for a
  value without an entry.
\<close>

definition apply_get :: "(string, string) dict \<Rightarrow> string option \<Rightarrow> string option" where
  "apply_get d x = (case x of None \<Rightarrow> None | Some s \<Rightarrow> map_of d s)"

text \<open>
  The loop over \<^verbatim>\<open>full_criteria\<close>. A column the frame does not have, or a field without
  a dictionary, raises KeyError inside the \<^verbatim>\<open>try\<close>, which exits; on a frame without rows
  the lambda is never called.
\<close>

fun convert_columns :: "string list \<Rightarrow> string option mapped_row frame \<Rightarrow> codebook \<Rightarrow> error + string option mapped_row frame" where
  "convert_columns [] mapped_df translation_dict = Inr mapped_df"
| "convert_columns (column_name # full_criteria) mapped_df translation_dict =
     (if column_name \<notin> set (columns mapped_df) then Inl SystemExit
      else if rows mapped_df = [] then convert_columns full_criteria mapped_df translation_dict
      else (case map_of translation_dict column_name of
              None \<Rightarrow> Inl SystemExit
            | Some d \<Rightarrow>
                convert_columns full_criteria
                  (mapped_df\<lparr>rows :=
                     map (\<lambda>r. r\<lparr>cells := set_cell (columns mapped_df) column_name
                                     (apply_get d (cell (columns mapped_df) (cells r) column_name))
                                     (cells r)\<rparr>)
                         (rows mapped_df)\<rparr>)
                  translation_dict))"

text \<open>
  \<^verbatim>\<open>convert_to_values\<close>: the loop, then \<^verbatim>\<open>replace({pd.NA: '', np.nan: ''})\<close>, which
  turns every missing value (the \<open>None\<close> of an unmapped label) into the empty string.
\<close>

definition convert_to_values :: "string list \<Rightarrow> string mapped_row frame \<Rightarrow> codebook \<Rightarrow> error + string mapped_row frame" where
  "convert_to_values full_criteria mapped_df translation_dict =
     (case convert_columns full_criteria
             \<lparr>columns = columns mapped_df,
              rows = map (\<lambda>r. \<lparr>cells = map Some (cells r), size_col = size_col r,
                                probability = probability r\<rparr>) (rows mapped_df)\<rparr>
             translation_dict of
        Inl e \<Rightarrow> Inl e
      | Inr df \<Rightarrow>
          Inr \<lparr>columns = columns df,
               rows = map (\<lambda>r. \<lparr>cells = map replace_missing (cells r), size_col = size_col r,
                                 probability = probability r\<rparr>) (rows df)\<rparr>)"

text \<open>
  Python's \<^verbatim>\<open>int(s)\<close> on a string, base 10: surrounding whitespace is dropped, then an
  optional sign and decimal digits, where single underscores may stand between digits.
  Anything else raises ValueError (\<open>None\<close> here).
\<close>

definition is_digit :: "char \<Rightarrow> bool" where
  "is_digit c = (48 \<le> (of_char c :: nat) \<and> (of_char c :: nat) \<le> 57)"

definition digit_val :: "char \<Rightarrow> nat" where
  "digit_val c = of_char c - 48"

fun parse_digits :: "string \<Rightarrow> nat \<Rightarrow> nat option" where
  "parse_digits [] acc = Some acc"
| "parse_digits [c] acc = (if is_digit c then Some (10 * acc + digit_val c) else None)"
| "parse_digits (c # d # ds) acc =
     (if is_digit c then parse_digits (d # ds) (10 * acc + digit_val c)
      else if c = CHR ''_'' \<and> is_digit d then parse_digits ds (10 * acc + digit_val d)
      else None)"

definition py_nat :: "string \<Rightarrow> nat option" where
  "py_nat s = (case s of [] \<Rightarrow> None
               | c # cs \<Rightarrow> if is_digit c then parse_digits cs (digit_val c) else None)"

definition py_int :: "string \<Rightarrow> int option" where
  "py_int s =
     (case strip s of
        [] \<Rightarrow> None
      | c # cs \<Rightarrow>
          if c = CHR ''-'' then map_option (\<lambda>n. - int n) (py_nat cs)
          else if c = CHR ''+'' then map_option int (py_nat cs)
          else map_option int (py_nat (c # cs)))"

text \<open>
  After line 266 the criteria columns hold integers and the other columns still hold
  text, so a cell is one or the other. So is a value of a subject record.
\<close>

datatype val = Label string | Code int

text \<open>
  Line 266 on one cell of a criteria column:
  \<^verbatim>\<open>.replace(['', inf, -inf], nan).fillna(-1).astype(int)\<close>. The empty string becomes
  the sentinel -1, any other string goes through \<^verbatim>\<open>int\<close>.
\<close>

definition coerce_cell :: "string \<Rightarrow> error + val" where
  "coerce_cell s =
     (if s = [] then Inr (Code (- 1))
      else (case py_int s of None \<Rightarrow> Inl ValueError | Some i \<Rightarrow> Inr (Code i)))"

fun sequence_sum :: "('e + 'a) list \<Rightarrow> 'e + 'a list" where
  "sequence_sum [] = Inr []"
| "sequence_sum (x # xs) =
     (case x of
        Inl e \<Rightarrow> Inl e
      | Inr v \<Rightarrow> (case sequence_sum xs of Inl e \<Rightarrow> Inl e | Inr vs \<Rightarrow> Inr (v # vs)))"

definition coerce_row :: "string list \<Rightarrow> string list \<Rightarrow> string mapped_row \<Rightarrow> error + val mapped_row" where
  "coerce_row full_criteria cols r =
     (case sequence_sum (map (\<lambda>(c, v). if c \<in> set full_criteria then coerce_cell v
                                          else Inr (Label v))
                             (zip cols (cells r))) of
        Inl e \<Rightarrow> Inl e
      | Inr vs \<Rightarrow> Inr \<lparr>cells = vs, size_col = size_col r, probability = probability r\<rparr>)"

definition coerce_criteria :: "string list \<Rightarrow> string mapped_row frame \<Rightarrow> error + val mapped_row frame" where
  "coerce_criteria full_criteria mapped_df =
     (if \<not> set full_criteria \<subseteq> set (columns mapped_df) then Inl KeyError
      else (case sequence_sum (map (coerce_row full_criteria (columns mapped_df)) (rows mapped_df)) of
              Inl e \<Rightarrow> Inl e
            | Inr rs \<Rightarrow> Inr \<lparr>columns = columns mapped_df, rows = rs\<rparr>))"

text \<open>
  Lines 262, 265 and 266 of \<^verbatim>\<open>main\<close>, one after the other: the probability table, its
  labels replaced by codes, its criteria columns made integer.
\<close>

definition reconciled_probabilities :: "config \<Rightarrow> string grouped_row frame \<Rightarrow> string list \<Rightarrow> string list \<Rightarrow> codebook
      \<Rightarrow> error + val mapped_row frame" where
  "reconciled_probabilities cfg grouped_df full_criteria less_criteria translation_dict =
     (case calculate_probabilities cfg grouped_df less_criteria of
        Inl e \<Rightarrow> Inl e
      | Inr mapped_df \<Rightarrow>
          (case convert_to_values full_criteria mapped_df translation_dict of
             Inl e \<Rightarrow> Inl e
           | Inr mapped_df \<Rightarrow> coerce_criteria full_criteria mapped_df))"

section \<open>Randomizer: \<^verbatim>\<open>randomization_step\<close>\<close>

text \<open>
  The random source is the sequence of numbers that successive calls of
  \<^verbatim>\<open>random.random()\<close> return; a seed fixes the sequence. A call takes the first and
  leaves the rest.
\<close>

type_synonym rng = "nat \<Rightarrow> rat"

definition random :: "rng \<Rightarrow> rat \<times> rng" where
  "random g = (g 0, \<lambda>n. g (Suc n))"

text \<open>\<^verbatim>\<open>itertools.accumulate\<close>: the running sums.\<close>

fun accumulate_from :: "rat \<Rightarrow> rat list \<Rightarrow> rat list" where
  "accumulate_from acc [] = []"
| "accumulate_from acc (w # ws) = (acc + w) # accumulate_from (acc + w) ws"

definition accumulate :: "rat list \<Rightarrow> rat list" where
  "accumulate weights = accumulate_from 0 weights"

text \<open>\<^verbatim>\<open>bisect.bisect(a, x, lo, hi)\<close>, the binary search of the standard library.\<close>

function bisect :: "rat list \<Rightarrow> rat \<Rightarrow> nat \<Rightarrow> nat \<Rightarrow> nat" where
  "bisect a x lo hi =
     (if lo < hi
      then (let mid = (lo + hi) div 2
            in if x < a ! mid then bisect a x lo mid else bisect a x (mid + 1) hi)
      else lo)"
  by pat_completeness auto
termination
  by (relation "measure (\<lambda>(a, x, lo, hi). hi - lo)") auto

declare bisect.simps [simp del]

text \<open>
  \<^verbatim>\<open>random.choices(population, weights=weights, k=1)[0]\<close> as the standard library
  (Python 3.9 and later) computes it, with \<open>u\<close> the number that \<^verbatim>\<open>random()\<close> returns: no
  weights at all is an IndexError, a total that is not positive a ValueError.
\<close>

definition choices :: "'a list \<Rightarrow> rat list \<Rightarrow> rat \<Rightarrow> error + 'a" where
  "choices population weights u =
     (let cum_weights = accumulate weights
      in if length cum_weights \<noteq> length population then Inl ValueError
         else if cum_weights = [] then Inl IndexError
         else let tot = last cum_weights
              in if tot \<le> 0 then Inl ValueError
                 else Inr (population ! bisect cum_weights (u * tot) 0 (length population - 1)))"

text \<open>
  A subject record is a \<^verbatim>\<open>dict\<close> from field name to value. The two tests of the loop
  body of \<^verbatim>\<open>randomization_step\<close>: a record that has every criterion and whose tuple of
  criteria values is a key of the index finds its distribution there; any other record
  finds none.
\<close>

definition lookup_stratum :: "string list \<Rightarrow> 'v probability_dict \<Rightarrow> (string, 'v) dict \<Rightarrow> ('v, rat) dict option" where
  "lookup_stratum less_criteria probability_dict report_value =
     (if list_all (\<lambda>key. key \<in> fst ` set report_value) less_criteria
      then map_of probability_dict (map (\<lambda>key. the (map_of report_value key)) less_criteria)
      else None)"

text \<open>
  The loop visits the records in order. A record that finds its distribution draws once
  from the random source and stores the choice under the randomized field; any other
  record is passed over. An exception of \<^verbatim>\<open>random.choices\<close> is not caught.
\<close>

fun randomization_step :: "config \<Rightarrow> (string, 'v) dict list \<Rightarrow> string list \<Rightarrow> 'v probability_dict \<Rightarrow> rng
      \<Rightarrow> error + ((string, 'v) dict list \<times> rng)" where
  "randomization_step cfg [] less_criteria probability_dict g = Inr ([], g)"
| "randomization_step cfg (report_value # eligibility_report) less_criteria probability_dict g =
     (case lookup_stratum less_criteria probability_dict report_value of
        None \<Rightarrow>
          (case randomization_step cfg eligibility_report less_criteria probability_dict g of
             Inl e \<Rightarrow> Inl e
           | Inr (rest, g') \<Rightarrow> Inr (report_value # rest, g'))
      | Some multilevel_value \<Rightarrow>
          (case choices (map fst multilevel_value) (map snd multilevel_value) (fst (random g)) of
             Inl e \<Rightarrow> Inl e
           | Inr random_choice \<Rightarrow>
               (case randomization_step cfg eligibility_report less_criteria probability_dict
                       (snd (random g)) of
                  Inl e \<Rightarrow> Inl e
                | Inr (rest, g') \<Rightarrow>
                    Inr (AList.update (randomized_field cfg) random_choice report_value # rest, g'))))"

section \<open>The run: \<^verbatim>\<open>main\<close> between download and upload\<close>

text \<open>
  Line 269: every value of every record goes through \<^verbatim>\<open>int\<close>, the empty string becomes
  -1; a value that is not an integer raises ValueError.
\<close>

definition normalise_value :: "string \<Rightarrow> error + val" where
  "normalise_value v =
     (if v \<noteq> [] then (case py_int v of None \<Rightarrow> Inl ValueError | Some i \<Rightarrow> Inr (Code i))
      else Inr (Code (- 1)))"

definition normalise_record :: "(string, string) dict \<Rightarrow> error + (string, val) dict" where
  "normalise_record input_dict =
     sequence_sum (map (\<lambda>(key, v). (case normalise_value v of
                                       Inl e \<Rightarrow> Inl e
                                     | Inr i \<Rightarrow> Inr (key, i))) input_dict)"

definition normalise_report :: "(string, string) dict list \<Rightarrow> error + (string, val) dict list" where
  "normalise_report eligibility_report = sequence_sum (map normalise_record eligibility_report)"

text \<open>
  Lines 278 to 281: every value equal to -1 becomes \<^verbatim>\<open>None\<close> (JSON null) before the
  records are uploaded.
\<close>

definition nullify_record :: "(string, val) dict \<Rightarrow> (string, val option) dict" where
  "nullify_record record = map (\<lambda>(key, v). (key, if v = Code (- 1) then None else Some v)) record"

text \<open>
  \<^verbatim>\<open>main\<close> from the downloaded report, codebook and table to the records handed to
  \<^verbatim>\<open>push_to_redcap\<close>, statement by statement. An empty report makes
  \<^verbatim>\<open>pull_redcap_report\<close> exit; \<^verbatim>\<open>list.remove\<close> raises ValueError and
  \<^verbatim>\<open>Index.drop\<close> KeyError for a name that is not there.
\<close>

definition main_core :: "config \<Rightarrow> (string, string) dict list \<Rightarrow> field list \<Rightarrow> string option list frame \<Rightarrow> rng
      \<Rightarrow> error + (string, val option) dict list" where
  "main_core cfg eligibility_report original_codebook allocation_df g =
     (if eligibility_report = [] then Inl SystemExit
      else
        let full_criteria = tl (map fst (hd eligibility_report))
        in case convert_codebook cfg original_codebook full_criteria of
             Inl e \<Rightarrow> Inl e
           | Inr translation_dict \<Rightarrow>
        (case groupby_size (replace_na allocation_df) of
           Inl e \<Rightarrow> Inl e
         | Inr grouped_df \<Rightarrow>
        if randomized_field cfg \<notin> set full_criteria then Inl ValueError
        else
          let less_criteria = remove1 (randomized_field cfg) full_criteria
          in if treatment_field cfg \<notin> set (columns allocation_df) then Inl KeyError
             else if sort full_criteria
                       \<noteq> sort (removeAll (treatment_field cfg) (columns allocation_df))
             then Inl SystemExit
             else
        (case reconciled_probabilities cfg grouped_df full_criteria less_criteria
                 translation_dict of
           Inl e \<Rightarrow> Inl e
         | Inr mapped_df \<Rightarrow>
        (case normalise_report eligibility_report of
           Inl e \<Rightarrow> Inl e
         | Inr eligibility_report \<Rightarrow>
        (case create_probability_dict cfg mapped_df less_criteria of
           Inl e \<Rightarrow> Inl e
         | Inr probability_dict \<Rightarrow>
        (case randomization_step cfg eligibility_report less_criteria probability_dict g of
           Inl e \<Rightarrow> Inl e
         | Inr (eligibility_report, g') \<Rightarrow>
             Inr (map nullify_record eligibility_report)))))))"

section \<open>Example inputs\<close>

text \<open>
  Concrete inputs on which the properties below are evaluated. \<open>join_table\<close> is the
  table of the specification's join example: stratum A with 15 rows of treatment1 and 5 of
  treatment2, stratum B with 10 rows of treatment3. \<open>six_arm_table\<close> is one stratum
  with six treatments, one row each.
\<close>

definition example_cfg :: config where
  "example_cfg = \<lparr>treatment_field = ''treatment'', randomized_field = ''rand''\<rparr>"



text \<open>
  \<open>missing_table\<close> has two rows without a site. \<open>collapse_table\<close> has two treatment
  labels, Other and Sham, that \<open>collapse_dict\<close> does not know; \<open>collapse_frame\<close> is the
  probability table the run derives from them.
\<close>

definition missing_table :: "string option list frame" where
  "missing_table =
     \<lparr>columns = [''site'', ''treatment''],
      rows = [[None, Some ''Drug''], [Some ''North'', Some ''Drug''], [None, Some ''Drug'']]\<rparr>"

definition collapse_table :: "string option list frame" where
  "collapse_table =
     \<lparr>columns = [''site'', ''treatment''],
      rows = [[Some ''North'', Some ''Drug''], [Some ''North'', Some ''Other''],
              [Some ''North'', Some ''Sham''], [Some ''North'', Some ''Sham'']]\<rparr>"

definition collapse_dict :: codebook where
  "collapse_dict =
     [(''site'', [(''North'', ''1'')]), (''rand'', [(''Drug'', ''1''), (''Placebo'', ''2'')])]"

definition collapse_frame :: "val mapped_row frame" where
  "collapse_frame =
     \<lparr>columns = [''site'', ''treatment'', ''rand''],
      rows = [\<lparr>cells = [Code 1, Label ''Drug'', Code 1], size_col = 1, probability = 1 / 4\<rparr>,
              \<lparr>cells = [Code 1, Label ''Other'', Code (- 1)], size_col = 1, probability = 1 / 4\<rparr>,
              \<lparr>cells = [Code 1, Label ''Sham'', Code (- 1)], size_col = 2, probability = 1 / 2\<rparr>]\<rparr>"

text \<open>
  Three pending subjects as downloaded (\<open>pending_strings\<close>) and after line 269
  (\<open>pending_report\<close>): the first is at site 1, the second at site 2, the third has no
  site. \<open>main_table\<close> has rows for site North only, three of Drug and one of Placebo;
  \<open>example_codebook\<close> gives North the code 1. \<open>site_index\<close> is the Probability Index
  that results.
\<close>

definition pending_strings :: "(string, string) dict list" where
  "pending_strings =
     [[(''record_id'', ''1''), (''site'', ''1''), (''rand'', [])],
      [(''record_id'', ''2''), (''site'', ''2''), (''rand'', [])],
      [(''record_id'', ''3''), (''site'', []), (''rand'', [])]]"

definition pending_report :: "(string, val) dict list" where
  "pending_report =
     [[(''record_id'', Code 1), (''site'', Code 1), (''rand'', Code (- 1))],
      [(''record_id'', Code 2), (''site'', Code 2), (''rand'', Code (- 1))],
      [(''record_id'', Code 3), (''site'', Code (- 1)), (''rand'', Code (- 1))]]"

definition example_codebook :: "field list" where
  "example_codebook =
     [\<lparr>field_name = ''site'', field_type = ''radio'',
       select_choices_or_calculations = ''1, North | 2, South''\<rparr>,
      \<lparr>field_name = ''rand'', field_type = ''dropdown'',
       select_choices_or_calculations = ''1, Drug | 2, Placebo''\<rparr>]"

definition main_table :: "string option list frame" where
  "main_table =
     \<lparr>columns = [''site'', ''rand'', ''treatment''],
      rows = [[Some ''North'', None, Some ''Drug''], [Some ''North'', None, Some ''Placebo''],
              [Some ''North'', None, Some ''Drug''], [Some ''North'', None, Some ''Drug'']]\<rparr>"

definition site_index :: "val probability_dict" where
  "site_index = [([Code 1], [(Code 1, 3 / 4), (Code 2, 1 / 4)])]"


text \<open>Two random sources that agree on their first number and differ afterwards.\<close>

definition source_a :: rng where
  "source_a = (\<lambda>n. 1 / 2)"

definition source_b :: rng where
  "source_b = (\<lambda>n. if n = 0 then 1 / 2 else 9 / 10)"

section \<open>Columns, cells and keys\<close>



lemma col_index_notin: "c \<notin> set cols \<Longrightarrow> col_index cols c = length cols"
  by (induction cols) auto









section \<open>Counting rows by group\<close>

lemma sum_count_list_filter:
  assumes "distinct ds" "set ds = set R"
  shows "sum_list (map (count_list R) (filter P ds)) = length (filter P R)"
proof -
  have "sum_list (map (count_list R) (filter P ds)) = sum (count_list R) (set (filter P ds))"
    using assms(1) by (simp add: sum_list_distinct_conv_sum_set)
  also have "\<dots> = sum (count_list R) {x \<in> set R. P x}"
    using assms(2) by simp
  also have "\<dots> = (\<Sum>x\<in>set R. count_list R x * (if P x then 1 else 0))"
    by (simp add: sum.inter_filter [symmetric] if_distrib [of "\<lambda>n. _ * n"] cong: if_cong)
  also have "\<dots> = sum_list (map (\<lambda>x. if P x then 1 else 0) R)"
    by (simp add: sum_list_map_eq_sum_count)
  also have "\<dots> = length (filter P R)"
    by (induction R) auto
  finally show ?thesis .
qed


section \<open>Dictionaries built by repeated assignment\<close>

lemma map_of_fold_update:
  "map_of (fold (\<lambda>m. AList.update (f m) (p m)) ms d) t =
     (case filter (\<lambda>m. f m = t) (rev ms) of [] \<Rightarrow> map_of d t | m # _ \<Rightarrow> Some (p m))"
proof (induction ms arbitrary: d)
  case Nil
  show ?case by simp
next
  case (Cons m ms)
  show ?case
    by (simp add: Cons.IH update_conv' split: list.splits)
qed


lemma map_of_fold_index_step:
  "map_of (fold (index_step cfg cols crit) ms pd) k =
     (if filter (\<lambda>m. key_of cols crit (cells m) = k) ms = [] then map_of pd k
      else Some (fold (\<lambda>m. AList.update (cell cols (cells m) (randomized_field cfg)) (probability m))
                   (filter (\<lambda>m. key_of cols crit (cells m) = k) ms)
                   (case map_of pd k of None \<Rightarrow> [] | Some d \<Rightarrow> d)))"
proof (induction ms arbitrary: pd)
  case Nil
  show ?case by simp
next
  case (Cons m ms)
  have step: "map_of (index_step cfg cols crit m pd) k =
      (if key_of cols crit (cells m) = k
       then Some (AList.update (cell cols (cells m) (randomized_field cfg)) (probability m)
                    (case map_of pd k of None \<Rightarrow> [] | Some d \<Rightarrow> d))
       else map_of pd k)"
    by (simp add: index_step_def Let_def update_conv')
  have "map_of (fold (index_step cfg cols crit) (m # ms) pd) k
          = map_of (fold (index_step cfg cols crit) ms (index_step cfg cols crit m pd)) k"
    by simp
  also note Cons.IH [of "index_step cfg cols crit m pd"]
  finally show ?case
    by (simp add: step)
qed

section \<open>Rounding to three decimals\<close>






section \<open>What the Probability Calculator computes\<close>

lemma freq_rows_char:
  assumes "distinct Gc" "set Gc = set R"
  shows "freq_rows cols crit (map (\<lambda>g. \<lparr>g_cells = g, g_size = count_list R g\<rparr>) Gc)
       = map (\<lambda>k. \<lparr>g_cells = k, g_size = length (filter (\<lambda>r. key_of cols crit r = k) R)\<rparr>)
             (sort (remdups (map (key_of cols crit) Gc)))"
proof -
  have "sum_list (map g_size (filter (\<lambda>g. key_of cols crit (g_cells g) = k)
            (map (\<lambda>g. \<lparr>g_cells = g, g_size = count_list R g\<rparr>) Gc)))
        = length (filter (\<lambda>r. key_of cols crit r = k) R)" for k
  proof -
    have "sum_list (map g_size (filter (\<lambda>g. key_of cols crit (g_cells g) = k)
            (map (\<lambda>g. \<lparr>g_cells = g, g_size = count_list R g\<rparr>) Gc)))
          = sum_list (map (count_list R) (filter (\<lambda>g. key_of cols crit g = k) Gc))"
      by (simp add: filter_map o_def)
    then show ?thesis
      using sum_count_list_filter [OF assms] by simp
  qed
  then show ?thesis
    by (simp add: freq_rows_def o_def)
qed








section \<open>Probability Index entries\<close>




section \<open>Sum of a distribution\<close>




section \<open>Rows that share a key and a treatment code\<close>

text \<open>
  C10. \<^verbatim>\<open>create_probability_dict\<close> assigns, it does not add: when several rows of the
  probability table have the stratum key \<open>k\<close> and the treatment code \<open>t\<close>, the entry
  of \<open>t\<close> in the distribution of \<open>k\<close> is the probability of the last of these rows.
\<close>

theorem later_row_overwrites:
  fixes cfg :: config and mapped_df :: "'a mapped_row frame" and less_criteria k t
  defines "cols \<equiv> columns mapped_df"
  defines "same \<equiv> (\<lambda>m. key_of cols less_criteria (cells m) = k
                        \<and> cell cols (cells m) (randomized_field cfg) = t)"
  assumes cols: "set less_criteria \<subseteq> set cols" "randomized_field cfg \<in> set cols"
    and some: "filter same (rows mapped_df) \<noteq> []"
  shows "\<exists>pd d. create_probability_dict cfg mapped_df less_criteria = Inr pd
           \<and> map_of pd k = Some d
           \<and> map_of d t = Some (probability (last (filter same (rows mapped_df))))"
proof -
  define M where "M = rows mapped_df"
  define Mk where "Mk = filter (\<lambda>m. key_of cols less_criteria (cells m) = k) M"
  define pd where "pd = fold (index_step cfg cols less_criteria) M []"
  define d where "d = fold (\<lambda>m. AList.update (cell cols (cells m) (randomized_field cfg)) (probability m)) Mk []"
  from some have M_ne: "M \<noteq> []" by (auto simp: M_def)
  have run: "create_probability_dict cfg mapped_df less_criteria = Inr pd"
    using M_ne cols by (simp add: create_probability_dict_def pd_def M_def cols_def)
  have both: "filter (\<lambda>m. cell cols (cells m) (randomized_field cfg) = t) Mk = filter same M"
    by (simp add: Mk_def same_def conj_commute)
  with some have Mk_ne: "Mk \<noteq> []" by (auto simp: M_def)
  then have pd_k: "map_of pd k = Some d"
    by (simp add: pd_def d_def map_of_fold_index_step Mk_def)
  have "filter (\<lambda>m. cell cols (cells m) (randomized_field cfg) = t) (rev Mk) = rev (filter same M)"
    by (simp add: both rev_filter [symmetric])
  moreover from some obtain m ms where "rev (filter same M) = m # ms"
    by (cases "rev (filter same M)") (auto simp: M_def)
  moreover from this have "m = last (filter same M)"
    by (metis last_rev list.sel(1) rev_rev_ident hd_rev)
  ultimately have "map_of d t = Some (probability (last (filter same M)))"
    by (simp add: d_def map_of_fold_update)
  with run pd_k show ?thesis unfolding M_def by blast
qed

text \<open>
  In \<open>collapse_table\<close> the labels Other (1 row of 4) and Sham (2 rows of 4) have no
  code, so both become -1. The entry of -1 is the 1/2 of Sham, the later row, not
  3/4, and the distribution sums to 3/4.
\<close>

theorem later_row_overwrites_witness:
  "(\<exists>grouped_df. groupby_size (replace_na collapse_table) = Inr grouped_df
       \<and> reconciled_probabilities example_cfg grouped_df [''site'', ''rand''] [''site'']
             collapse_dict = Inr collapse_frame)
   \<and> create_probability_dict example_cfg collapse_frame [''site'']
       = Inr [([Code 1], [(Code 1, 1 / 4), (Code (- 1), 1 / 2)])]
   \<and> (\<exists>pd d. create_probability_dict example_cfg collapse_frame [''site''] = Inr pd
         \<and> map_of pd [Code 1] = Some d \<and> map_of d (Code (- 1)) = Some (1 / 2))
   \<and> sum_list (map snd [(Code 1, 1 / 4), (Code (- 1), 1 / 2 :: rat)]) < 1"
proof -
  have grouped: "groupby_size (replace_na collapse_table)
      = Inr \<lparr>columns = [''site'', ''treatment''],
             rows = [\<lparr>g_cells = [''North'', ''Drug''], g_size = 1\<rparr>,
                     \<lparr>g_cells = [''North'', ''Other''], g_size = 1\<rparr>,
                     \<lparr>g_cells = [''North'', ''Sham''], g_size = 2\<rparr>]\<rparr>"
    by code_simp
  have rec: "reconciled_probabilities example_cfg
       \<lparr>columns = [''site'', ''treatment''],
             rows = [\<lparr>g_cells = [''North'', ''Drug''], g_size = 1\<rparr>,
                     \<lparr>g_cells = [''North'', ''Other''], g_size = 1\<rparr>,
                     \<lparr>g_cells = [''North'', ''Sham''], g_size = 2\<rparr>]\<rparr>
        [''site'', ''rand''] [''site''] collapse_dict = Inr collapse_frame"
    by code_simp
  have index: "create_probability_dict example_cfg collapse_frame [''site'']
       = Inr [([Code 1], [(Code 1, 1 / 4), (Code (- 1), 1 / 2)])]"
    by code_simp
  have h1: "set [''site''] \<subseteq> set (columns collapse_frame)"
    and h2: "randomized_field example_cfg \<in> set (columns collapse_frame)"
    by (simp_all add: collapse_frame_def example_cfg_def)
  have same: "filter (\<lambda>m. key_of (columns collapse_frame) [''site''] (cells m) = [Code 1]
                    \<and> cell (columns collapse_frame) (cells m) (randomized_field example_cfg) = Code (- 1))
               (rows collapse_frame)
      = [\<lparr>cells = [Code 1, Label ''Other'', Code (- 1)], size_col = 1, probability = 1 / 4\<rparr>,
         \<lparr>cells = [Code 1, Label ''Sham'', Code (- 1)], size_col = 2, probability = 1 / 2\<rparr>]"
    by (simp add: collapse_frame_def example_cfg_def key_of_def cell_def)
  then have h3: "filter (\<lambda>m. key_of (columns collapse_frame) [''site''] (cells m) = [Code 1]
                    \<and> cell (columns collapse_frame) (cells m) (randomized_field example_cfg) = Code (- 1))
               (rows collapse_frame) \<noteq> []"
    by simp
  have inst: "\<exists>pd d. create_probability_dict example_cfg collapse_frame [''site''] = Inr pd
         \<and> map_of pd [Code 1] = Some d \<and> map_of d (Code (- 1)) = Some (1 / 2)"
    using later_row_overwrites [OF h1 h2 h3] unfolding same by simp
  from grouped rec index inst show ?thesis by simp
qed

section \<open>Missing values in the Frequency Aggregator\<close>

text \<open>
  C6. Lines 243 and 244 of \<^verbatim>\<open>main\<close> drop no row: the group sizes add up to the number of
  rows of the table, and every row is counted in the group whose cells are the row's own
  (missing cells as the empty string), together with the rows equal to it. The totals of
  \<^verbatim>\<open>calculate_probabilities\<close> (line 127) count it as well, under its own combination
  of criteria values. A row with a missing or empty cell in some column and a row with a
  non-empty cell in that column are in different groups.
\<close>

theorem every_row_is_counted_in_its_own_group:
  fixes allocation_df :: "string option list frame"
  assumes cols: "columns allocation_df \<noteq> []"
  shows "\<exists>grouped_df. groupby_size (replace_na allocation_df) = Inr grouped_df
           \<and> sum_list (map g_size (rows grouped_df)) = length (rows allocation_df)
           \<and> distinct (map g_cells (rows grouped_df))
           \<and> (\<forall>r\<in>set (rows allocation_df).
                 \<lparr>g_cells = map replace_missing r,
                  g_size = length (filter (\<lambda>r'. map replace_missing r' = map replace_missing r)
                                      (rows allocation_df))\<rparr> \<in> set (rows grouped_df)
                 \<and> 0 < length (filter (\<lambda>r'. map replace_missing r' = map replace_missing r)
                                      (rows allocation_df)))
           \<and> (\<forall>less_criteria. \<forall>r\<in>set (rows allocation_df).
                 \<lparr>g_cells = key_of (columns allocation_df) less_criteria (map replace_missing r),
                  g_size = length (filter
                     (\<lambda>r'. key_of (columns allocation_df) less_criteria (map replace_missing r')
                             = key_of (columns allocation_df) less_criteria (map replace_missing r))
                     (rows allocation_df))\<rparr>
                   \<in> set (freq_rows (columns allocation_df) less_criteria (rows grouped_df)))
           \<and> (\<forall>r\<in>set (rows allocation_df). \<forall>r'\<in>set (rows allocation_df). \<forall>i s.
                 i < length r \<and> i < length r' \<and> (r ! i = None \<or> r ! i = Some [])
                 \<and> r' ! i = Some s \<and> s \<noteq> []
                 \<longrightarrow> map replace_missing r \<noteq> map replace_missing r')"
proof -
  define R where "R = map (map replace_missing) (rows allocation_df)"
  define grouped_df where "grouped_df = \<lparr>columns = columns allocation_df,
     rows = map (\<lambda>g. \<lparr>g_cells = g, g_size = count_list R g\<rparr>) (sort (remdups R))\<rparr>"
  have run: "groupby_size (replace_na allocation_df) = Inr grouped_df"
    using cols by (simp add: groupby_size_def replace_na_def grouped_df_def R_def)
  have "sum_list (map g_size (rows grouped_df))
      = sum_list (map (count_list R) (filter (\<lambda>_. True) (sort (remdups R))))"
    by (simp add: grouped_df_def o_def)
  also have "\<dots> = length (filter (\<lambda>_. True) R)"
    by (rule sum_count_list_filter) simp_all
  finally have total: "sum_list (map g_size (rows grouped_df)) = length (rows allocation_df)"
    by (simp add: R_def)
  have dist: "distinct (map g_cells (rows grouped_df))"
    by (simp add: grouped_df_def o_def)
  have cnt: "count_list R (map replace_missing r)
      = length (filter (\<lambda>r'. map replace_missing r' = map replace_missing r) (rows allocation_df))" for r
    by (simp add: count_list_eq_length_filter R_def filter_map o_def eq_commute)
  have mem: "\<lparr>g_cells = map replace_missing r,
                  g_size = length (filter (\<lambda>r'. map replace_missing r' = map replace_missing r)
                                      (rows allocation_df))\<rparr> \<in> set (rows grouped_df)
             \<and> 0 < length (filter (\<lambda>r'. map replace_missing r' = map replace_missing r)
                                      (rows allocation_df))"
    if "r \<in> set (rows allocation_df)" for r
  proof -
    from that have "map replace_missing r \<in> set R" by (simp add: R_def)
    then have "\<lparr>g_cells = map replace_missing r, g_size = count_list R (map replace_missing r)\<rparr>
        \<in> set (rows grouped_df)"
      by (simp add: grouped_df_def)
    moreover from that have "filter (\<lambda>r'. map replace_missing r' = map replace_missing r)
                                      (rows allocation_df) \<noteq> []"
      by (auto simp: filter_empty_conv)
    ultimately show ?thesis by (simp add: cnt)
  qed
  have apart: "map replace_missing r \<noteq> map replace_missing r'"
    if "i < length r" "i < length r'" "r ! i = None \<or> r ! i = Some []" "r' ! i = Some s" "s \<noteq> []"
    for r r' :: "string option list" and i s
  proof
    assume "map replace_missing r = map replace_missing r'"
    then have "map replace_missing r ! i = map replace_missing r' ! i" by simp
    with that show False by (auto simp: replace_missing_def)
  qed
  have totals: "\<lparr>g_cells = key_of (columns allocation_df) less_criteria (map replace_missing r),
                  g_size = length (filter
                     (\<lambda>r'. key_of (columns allocation_df) less_criteria (map replace_missing r')
                             = key_of (columns allocation_df) less_criteria (map replace_missing r))
                     (rows allocation_df))\<rparr>
                   \<in> set (freq_rows (columns allocation_df) less_criteria (rows grouped_df))"
    if r: "r \<in> set (rows allocation_df)" for less_criteria r
  proof -
    define K :: "string list \<Rightarrow> string list"
      where "K = key_of (columns allocation_df) less_criteria"
    have freq: "freq_rows (columns allocation_df) less_criteria (rows grouped_df)
        = map (\<lambda>k. \<lparr>g_cells = k, g_size = length (filter (\<lambda>r. K r = k) R)\<rparr>)
              (sort (remdups (map K (sort (remdups R)))))"
      unfolding grouped_df_def K_def by (simp add: freq_rows_char [of "sort (remdups R)" R])
    have size: "length (filter (\<lambda>r. K r = k) R)
        = length (filter (\<lambda>r'. K (map replace_missing r') = k) (rows allocation_df))" for k
      by (simp add: R_def filter_map o_def)
    from r have "K (map replace_missing r) \<in> set (sort (remdups (map K (sort (remdups R)))))"
      by (simp add: R_def)
    then have "\<lparr>g_cells = K (map replace_missing r),
                g_size = length (filter (\<lambda>r'. K r' = K (map replace_missing r)) R)\<rparr>
        \<in> set (freq_rows (columns allocation_df) less_criteria (rows grouped_df))"
      unfolding freq by (simp add: image_iff)
    then have "\<lparr>g_cells = K (map replace_missing r),
                g_size = length (filter (\<lambda>r'. K (map replace_missing r') = K (map replace_missing r))
                                   (rows allocation_df))\<rparr>
        \<in> set (freq_rows (columns allocation_df) less_criteria (rows grouped_df))"
      by (simp only: size)
    then show ?thesis unfolding K_def .
  qed
  from run total dist mem totals apart show ?thesis by blast
qed

text \<open>
  In \<open>missing_table\<close> the two rows without a site form a group of size 2, apart from
  the row of site North, and a total of 2 under the empty site.
\<close>

theorem every_row_is_counted_in_its_own_group_witness:
  "groupby_size (replace_na missing_table)
     = Inr \<lparr>columns = [''site'', ''treatment''],
            rows = [\<lparr>g_cells = [[], ''Drug''], g_size = 2\<rparr>,
                    \<lparr>g_cells = [''North'', ''Drug''], g_size = 1\<rparr>]\<rparr>
   \<and> freq_rows [''site'', ''treatment''] [''site'']
         [\<lparr>g_cells = [[], ''Drug''], g_size = 2\<rparr>, \<lparr>g_cells = [''North'', ''Drug''], g_size = 1\<rparr>]
       = [\<lparr>g_cells = [[]], g_size = 2\<rparr>, \<lparr>g_cells = [''North''], g_size = 1\<rparr>]
   \<and> map replace_missing [None, Some ''Drug''] \<noteq> map replace_missing [Some ''North'', Some ''Drug'']"
proof -
  have h: "columns missing_table \<noteq> []" by (simp add: missing_table_def)
  from every_row_is_counted_in_its_own_group [OF h]
  obtain grouped_df where sep: "\<forall>r\<in>set (rows missing_table). \<forall>r'\<in>set (rows missing_table). \<forall>i s.
                 i < length r \<and> i < length r' \<and> (r ! i = None \<or> r ! i = Some [])
                 \<and> r' ! i = Some s \<and> s \<noteq> []
                 \<longrightarrow> map replace_missing r \<noteq> map replace_missing r'"
    by blast
  have r1: "[None, Some ''Drug''] \<in> set (rows missing_table)"
    and r2: "[Some ''North'', Some ''Drug''] \<in> set (rows missing_table)"
    by (simp_all add: missing_table_def)
  have apart: "map replace_missing [None, Some ''Drug''] \<noteq> map replace_missing [Some ''North'', Some ''Drug'']"
    by (rule sep [rule_format, OF r1 r2, where i = 0 and s = "''North''"]) simp
  have grouped: "groupby_size (replace_na missing_table)
     = Inr \<lparr>columns = [''site'', ''treatment''],
            rows = [\<lparr>g_cells = [[], ''Drug''], g_size = 2\<rparr>,
                    \<lparr>g_cells = [''North'', ''Drug''], g_size = 1\<rparr>]\<rparr>"
    by code_simp
  have totals: "freq_rows [''site'', ''treatment''] [''site'']
         [\<lparr>g_cells = [[], ''Drug''], g_size = 2\<rparr>, \<lparr>g_cells = [''North'', ''Drug''], g_size = 1\<rparr>]
       = [\<lparr>g_cells = [[]], g_size = 2\<rparr>, \<lparr>g_cells = [''North''], g_size = 1\<rparr>]"
    by code_simp
  from grouped totals apart show ?thesis by blast
qed

section \<open>The Randomizer\<close>

lemma bisect_range: "lo \<le> hi \<Longrightarrow> lo \<le> bisect a x lo hi \<and> bisect a x lo hi \<le> hi"
proof (induction a x lo hi rule: bisect.induct)
  case (1 a x lo hi)
  show ?case
  proof (cases "lo < hi")
    case False
    then have "bisect a x lo hi = lo" by (subst bisect.simps) simp
    with "1.prems" show ?thesis by simp
  next
    case True
    define mid where "mid = (lo + hi) div 2"
    from True have mid: "lo \<le> mid" "mid < hi" by (simp_all add: mid_def)
    show ?thesis
    proof (cases "x < a ! mid")
      case left: True
      from "1.IH"(1) [OF True mid_def left] mid
      have "lo \<le> bisect a x lo mid \<and> bisect a x lo mid \<le> mid" by simp
      with True left mid show ?thesis
        by (simp add: bisect.simps [of a x lo hi] mid_def [symmetric] Let_def)
    next
      case right: False
      from "1.IH"(2) [OF True mid_def right] mid
      have "mid + 1 \<le> bisect a x (mid + 1) hi \<and> bisect a x (mid + 1) hi \<le> hi" by simp
      with True right mid show ?thesis
        by (simp add: bisect.simps [of a x lo hi] mid_def [symmetric] Let_def)
    qed
  qed
qed

lemma length_accumulate_from: "length (accumulate_from acc ws) = length ws"
  by (induction ws arbitrary: acc) simp_all

lemma last_accumulate_from:
  "ws \<noteq> [] \<Longrightarrow> last (accumulate_from acc ws) = acc + sum_list ws"
proof (induction ws arbitrary: acc)
  case Nil
  then show ?case by simp
next
  case (Cons w ws)
  show ?case
  proof (cases ws)
    case Nil
    then show ?thesis by simp
  next
    case (Cons v vs)
    then have "accumulate_from (acc + w) ws \<noteq> []" by simp
    with Cons.IH [of "acc + w"] Cons show ?thesis by (simp add: add.assoc)
  qed
qed

lemma accumulate_from_Nil: "accumulate_from acc ws = [] \<longleftrightarrow> ws = []"
  by (cases ws) simp_all

lemma choices_in_population:
  assumes "choices population weights u = Inr c"
  shows "c \<in> set population"
proof -
  from assms have len: "length (accumulate weights) = length population"
    and ne: "accumulate weights \<noteq> []"
    and c: "c = population ! bisect (accumulate weights)
                 (u * last (accumulate weights)) 0 (length population - 1)"
    by (auto simp: choices_def Let_def split: if_splits)
  from len ne have "0 < length population" by (cases population) auto
  moreover have "bisect (accumulate weights) (u * last (accumulate weights)) 0 (length population - 1)
      \<le> length population - 1"
    using bisect_range [of 0 "length population - 1"] by simp
  ultimately show ?thesis unfolding c by (intro nth_mem) linarith
qed

lemma choices_returns:
  assumes "length weights = length population" "weights \<noteq> []" "0 < sum_list weights"
  shows "\<exists>c. choices population weights u = Inr c"
  using assms
  by (simp add: choices_def Let_def accumulate_def length_accumulate_from last_accumulate_from
        accumulate_from_Nil)

lemma randomization_step_length:
  "randomization_step cfg report crit pd g = Inr (out, g') \<Longrightarrow> length out = length report"
proof (induction report arbitrary: out g g')
  case Nil
  then show ?case by simp
next
  case (Cons r report)
  then show ?case
    by (auto split: option.splits sum.splits prod.splits)
qed

lemma randomization_step_nth:
  assumes "randomization_step cfg report crit pd g = Inr (out, g')" "i < length report"
  shows "(lookup_stratum crit pd (report ! i) = None \<longrightarrow> out ! i = report ! i)
       \<and> (\<forall>mv. lookup_stratum crit pd (report ! i) = Some mv
             \<longrightarrow> (\<exists>t\<in>fst ` set mv. out ! i = AList.update (randomized_field cfg) t (report ! i)))"
  using assms
proof (induction report arbitrary: out g g' i)
  case Nil
  then show ?case by simp
next
  case (Cons r report)
  show ?case
  proof (cases "lookup_stratum crit pd r")
    case None
    with Cons.prems(1) obtain rest where rest: "randomization_step cfg report crit pd g = Inr (rest, g')"
      and out: "out = r # rest"
      by (auto split: sum.splits prod.splits)
    show ?thesis
    proof (cases i)
      case 0
      with None out show ?thesis by simp
    next
      case (Suc j)
      with Cons.prems(2) have "j < length report" by simp
      from Cons.IH [OF rest this] Suc out show ?thesis by simp
    qed
  next
    case (Some mv)
    with Cons.prems(1) obtain c rest where c: "choices (map fst mv) (map snd mv) (fst (random g)) = Inr c"
      and rest: "randomization_step cfg report crit pd (snd (random g)) = Inr (rest, g')"
      and out: "out = AList.update (randomized_field cfg) c r # rest"
      by (auto split: sum.splits prod.splits)
    from choices_in_population [OF c] have cin: "c \<in> fst ` set mv" by simp
    show ?thesis
    proof (cases i)
      case 0
      with Some out cin show ?thesis by auto
    next
      case (Suc j)
      with Cons.prems(2) have "j < length report" by simp
      from Cons.IH [OF rest this] Suc out show ?thesis by simp
    qed
  qed
qed

lemma map_of_nullify_record:
  "map_of (nullify_record r) f = map_option (\<lambda>v. if v = Code (- 1) then None else Some v) (map_of r f)"
proof (induction r)
  case Nil
  show ?case by (simp add: nullify_record_def)
next
  case (Cons p r)
  obtain k v where p: "p = (k, v)" by (cases p)
  have "nullify_record (p # r) = (k, if v = Code (- 1) then None else Some v) # nullify_record r"
    by (simp add: nullify_record_def p)
  with Cons.IH show ?case by (simp add: p)
qed

text \<open>
  \<^verbatim>\<open>randomization_step\<close> returns unless \<^verbatim>\<open>random.choices\<close> raises, that is, unless
  the weights of a distribution that some subject finds do not add up to a positive
  number.
\<close>

lemma randomization_step_returns:
  assumes "\<forall>r\<in>set report. \<forall>mv. lookup_stratum crit pd r = Some mv
             \<longrightarrow> mv \<noteq> [] \<and> 0 < sum_list (map snd mv)"
  shows "\<exists>out g'. randomization_step cfg report crit pd g = Inr (out, g')"
  using assms
proof (induction report arbitrary: g)
  case Nil
  show ?case by simp
next
  case (Cons r report)
  from Cons.prems have rest: "\<forall>r\<in>set report. \<forall>mv. lookup_stratum crit pd r = Some mv
             \<longrightarrow> mv \<noteq> [] \<and> 0 < sum_list (map snd mv)"
    by simp
  show ?case
  proof (cases "lookup_stratum crit pd r")
    case None
    from Cons.IH [OF rest, of g] obtain out g' where
      "randomization_step cfg report crit pd g = Inr (out, g')" by blast
    with None show ?thesis by simp
  next
    case (Some mv)
    with Cons.prems have "mv \<noteq> []" "0 < sum_list (map snd mv)" by simp_all
    then obtain c where c: "choices (map fst mv) (map snd mv) (fst (random g)) = Inr c"
      using choices_returns [of "map snd mv" "map fst mv" "fst (random g)"] by auto
    from Cons.IH [OF rest, of "snd (random g)"] obtain out g' where
      "randomization_step cfg report crit pd (snd (random g)) = Inr (out, g')" by blast
    with Some c show ?thesis by simp
  qed
qed

text \<open>
  C3. When \<^verbatim>\<open>randomization_step\<close> returns, it returns as many records as it was given,
  in the same order. In every record each field other than the randomized field has its
  old value. A record that finds no distribution is returned as it is, so that a
  randomized field that was unset (the sentinel -1) is uploaded as null (lines 278 to
  281). A record that finds its distribution differs from the old one only in the
  randomized field, which holds a treatment of that distribution. The fields keep their
  order; the randomized field is appended when the record did not have it.
\<close>

theorem randomization_step_frame:
  fixes eligibility_report :: "(string, val) dict list"
  assumes run: "randomization_step cfg eligibility_report less_criteria probability_dict g = Inr (out, g')"
  shows "length out = length eligibility_report
       \<and> (\<forall>i<length eligibility_report.
            (\<forall>f. f \<noteq> randomized_field cfg \<longrightarrow> map_of (out ! i) f = map_of (eligibility_report ! i) f)
          \<and> (lookup_stratum less_criteria probability_dict (eligibility_report ! i) = None
               \<longrightarrow> out ! i = eligibility_report ! i
                 \<and> (map_of (eligibility_report ! i) (randomized_field cfg) = Some (Code (- 1))
                      \<longrightarrow> map_of (nullify_record (out ! i)) (randomized_field cfg) = Some None))
          \<and> (\<forall>mv. lookup_stratum less_criteria probability_dict (eligibility_report ! i) = Some mv
               \<longrightarrow> (\<exists>t\<in>fst ` set mv.
                      out ! i = AList.update (randomized_field cfg) t (eligibility_report ! i)))
          \<and> map fst (out ! i)
              = (if lookup_stratum less_criteria probability_dict (eligibility_report ! i) = None
                    \<or> randomized_field cfg \<in> fst ` set (eligibility_report ! i)
                 then map fst (eligibility_report ! i)
                 else map fst (eligibility_report ! i) @ [randomized_field cfg]))"
proof -
  have len: "length out = length eligibility_report"
    using run by (rule randomization_step_length)
  have each: "(\<forall>f. f \<noteq> randomized_field cfg \<longrightarrow> map_of (out ! i) f = map_of (eligibility_report ! i) f)
          \<and> (lookup_stratum less_criteria probability_dict (eligibility_report ! i) = None
               \<longrightarrow> out ! i = eligibility_report ! i
                 \<and> (map_of (eligibility_report ! i) (randomized_field cfg) = Some (Code (- 1))
                      \<longrightarrow> map_of (nullify_record (out ! i)) (randomized_field cfg) = Some None))
          \<and> (\<forall>mv. lookup_stratum less_criteria probability_dict (eligibility_report ! i) = Some mv
               \<longrightarrow> (\<exists>t\<in>fst ` set mv.
                      out ! i = AList.update (randomized_field cfg) t (eligibility_report ! i)))
          \<and> map fst (out ! i)
              = (if lookup_stratum less_criteria probability_dict (eligibility_report ! i) = None
                    \<or> randomized_field cfg \<in> fst ` set (eligibility_report ! i)
                 then map fst (eligibility_report ! i)
                 else map fst (eligibility_report ! i) @ [randomized_field cfg])"
    if i: "i < length eligibility_report" for i
  proof (cases "lookup_stratum less_criteria probability_dict (eligibility_report ! i)")
    case None
    with randomization_step_nth [OF run i] have same: "out ! i = eligibility_report ! i" by simp
    have "map_of (eligibility_report ! i) (randomized_field cfg) = Some (Code (- 1))
          \<longrightarrow> map_of (nullify_record (out ! i)) (randomized_field cfg) = Some None"
      unfolding same by (simp add: map_of_nullify_record)
    with None same show ?thesis by simp
  next
    case (Some mv)
    with randomization_step_nth [OF run i] obtain t where t: "t \<in> fst ` set mv"
      and upd: "out ! i = AList.update (randomized_field cfg) t (eligibility_report ! i)"
      by auto
    have others: "\<forall>f. f \<noteq> randomized_field cfg \<longrightarrow> map_of (out ! i) f = map_of (eligibility_report ! i) f"
      unfolding upd by (simp add: update_conv')
    have keys: "map fst (out ! i)
        = (if randomized_field cfg \<in> fst ` set (eligibility_report ! i)
           then map fst (eligibility_report ! i)
           else map fst (eligibility_report ! i) @ [randomized_field cfg])"
      unfolding upd by (simp add: update_keys)
    have drawn: "\<forall>mv'. lookup_stratum less_criteria probability_dict (eligibility_report ! i) = Some mv'
               \<longrightarrow> (\<exists>t\<in>fst ` set mv'.
                      out ! i = AList.update (randomized_field cfg) t (eligibility_report ! i))"
    proof (rule allI, rule impI)
      fix mv'
      assume "lookup_stratum less_criteria probability_dict (eligibility_report ! i) = Some mv'"
      with Some have "mv' = mv" by simp
      with t have tin: "t \<in> fst ` set mv'" by simp
      from upd tin
      show "\<exists>t\<in>fst ` set mv'. out ! i = AList.update (randomized_field cfg) t (eligibility_report ! i)"
        by (rule bexI)
    qed
    show ?thesis
    proof (intro conjI)
      show "\<forall>f. f \<noteq> randomized_field cfg \<longrightarrow> map_of (out ! i) f = map_of (eligibility_report ! i) f"
        by (rule others)
      show "lookup_stratum less_criteria probability_dict (eligibility_report ! i) = None
               \<longrightarrow> out ! i = eligibility_report ! i
                 \<and> (map_of (eligibility_report ! i) (randomized_field cfg) = Some (Code (- 1))
                      \<longrightarrow> map_of (nullify_record (out ! i)) (randomized_field cfg) = Some None)"
        using Some by simp
      show "\<forall>mv'. lookup_stratum less_criteria probability_dict (eligibility_report ! i) = Some mv'
               \<longrightarrow> (\<exists>t\<in>fst ` set mv'.
                      out ! i = AList.update (randomized_field cfg) t (eligibility_report ! i))"
        by (rule drawn)
      show "map fst (out ! i)
              = (if lookup_stratum less_criteria probability_dict (eligibility_report ! i) = None
                    \<or> randomized_field cfg \<in> fst ` set (eligibility_report ! i)
                 then map fst (eligibility_report ! i)
                 else map fst (eligibility_report ! i) @ [randomized_field cfg])"
        using Some keys by simp
    qed
  qed
  show ?thesis
  proof (rule conjI)
    show "length out = length eligibility_report" by (rule len)
  next
    show "\<forall>i<length eligibility_report.
            (\<forall>f. f \<noteq> randomized_field cfg \<longrightarrow> map_of (out ! i) f = map_of (eligibility_report ! i) f)
          \<and> (lookup_stratum less_criteria probability_dict (eligibility_report ! i) = None
               \<longrightarrow> out ! i = eligibility_report ! i
                 \<and> (map_of (eligibility_report ! i) (randomized_field cfg) = Some (Code (- 1))
                      \<longrightarrow> map_of (nullify_record (out ! i)) (randomized_field cfg) = Some None))
          \<and> (\<forall>mv. lookup_stratum less_criteria probability_dict (eligibility_report ! i) = Some mv
               \<longrightarrow> (\<exists>t\<in>fst ` set mv.
                      out ! i = AList.update (randomized_field cfg) t (eligibility_report ! i)))
          \<and> map fst (out ! i)
              = (if lookup_stratum less_criteria probability_dict (eligibility_report ! i) = None
                    \<or> randomized_field cfg \<in> fst ` set (eligibility_report ! i)
                 then map fst (eligibility_report ! i)
                 else map fst (eligibility_report ! i) @ [randomized_field cfg])"
    proof (rule allI, rule impI)
      fix i assume "i < length eligibility_report"
      then show "(\<forall>f. f \<noteq> randomized_field cfg \<longrightarrow> map_of (out ! i) f = map_of (eligibility_report ! i) f)
          \<and> (lookup_stratum less_criteria probability_dict (eligibility_report ! i) = None
               \<longrightarrow> out ! i = eligibility_report ! i
                 \<and> (map_of (eligibility_report ! i) (randomized_field cfg) = Some (Code (- 1))
                      \<longrightarrow> map_of (nullify_record (out ! i)) (randomized_field cfg) = Some None))
          \<and> (\<forall>mv. lookup_stratum less_criteria probability_dict (eligibility_report ! i) = Some mv
               \<longrightarrow> (\<exists>t\<in>fst ` set mv.
                      out ! i = AList.update (randomized_field cfg) t (eligibility_report ! i)))
          \<and> map fst (out ! i)
              = (if lookup_stratum less_criteria probability_dict (eligibility_report ! i) = None
                    \<or> randomized_field cfg \<in> fst ` set (eligibility_report ! i)
                 then map fst (eligibility_report ! i)
                 else map fst (eligibility_report ! i) @ [randomized_field cfg])"
        by (rule each)
    qed
  qed
qed

text \<open>
  On \<open>pending_report\<close> with \<open>site_index\<close> the first subject is assigned treatment 1
  and the other two records come back unchanged.
\<close>

theorem randomization_step_frame_witness:
  "\<exists>out g'. randomization_step example_cfg pending_report [''site''] site_index (\<lambda>_. 1 / 2) = Inr (out, g')
      \<and> out = [[(''record_id'', Code 1), (''site'', Code 1), (''rand'', Code 1)],
                [(''record_id'', Code 2), (''site'', Code 2), (''rand'', Code (- 1))],
                [(''record_id'', Code 3), (''site'', Code (- 1)), (''rand'', Code (- 1))]]
      \<and> length out = length pending_report
      \<and> out ! 1 = pending_report ! 1
      \<and> map_of (nullify_record (out ! 1)) ''rand'' = Some None
      \<and> (\<forall>f. f \<noteq> ''rand'' \<longrightarrow> map_of (out ! 0) f = map_of (pending_report ! 0) f)"
proof -
  have "map_sum id fst (randomization_step example_cfg pending_report [''site''] site_index (\<lambda>_. 1 / 2))
     = Inr [[(''record_id'', Code 1), (''site'', Code 1), (''rand'', Code 1)],
            [(''record_id'', Code 2), (''site'', Code 2), (''rand'', Code (- 1))],
            [(''record_id'', Code 3), (''site'', Code (- 1)), (''rand'', Code (- 1))]]"
    by code_simp
  then obtain out g' where
    run: "randomization_step example_cfg pending_report [''site''] site_index (\<lambda>_. 1 / 2) = Inr (out, g')"
    and out: "out = [[(''record_id'', Code 1), (''site'', Code 1), (''rand'', Code 1)],
                     [(''record_id'', Code 2), (''site'', Code 2), (''rand'', Code (- 1))],
                     [(''record_id'', Code 3), (''site'', Code (- 1)), (''rand'', Code (- 1))]]"
    by (cases "randomization_step example_cfg pending_report [''site''] site_index (\<lambda>_. 1 / 2)") auto
  have rf: "randomized_field example_cfg = ''rand''" by (simp add: example_cfg_def)
  have n: "0 < length pending_report" "1 < length pending_report"
    by (simp_all add: pending_report_def)
  have look: "lookup_stratum [''site''] site_index (pending_report ! 1) = None"
    by (simp add: pending_report_def site_index_def lookup_stratum_def)
  have unset: "map_of (pending_report ! 1) ''rand'' = Some (Code (- 1))"
    by (simp add: pending_report_def)
  note frame = randomization_step_frame [OF run, unfolded rf]
  from frame have len: "length out = length pending_report" by (rule conjunct1)
  from frame have each: "\<forall>i<length pending_report.
            (\<forall>f. f \<noteq> ''rand'' \<longrightarrow> map_of (out ! i) f = map_of (pending_report ! i) f)
          \<and> (lookup_stratum [''site''] site_index (pending_report ! i) = None
               \<longrightarrow> out ! i = pending_report ! i
                 \<and> (map_of (pending_report ! i) ''rand'' = Some (Code (- 1))
                      \<longrightarrow> map_of (nullify_record (out ! i)) ''rand'' = Some None))
          \<and> (\<forall>mv. lookup_stratum [''site''] site_index (pending_report ! i) = Some mv
               \<longrightarrow> (\<exists>t\<in>fst ` set mv. out ! i = AList.update ''rand'' t (pending_report ! i)))
          \<and> map fst (out ! i)
              = (if lookup_stratum [''site''] site_index (pending_report ! i) = None
                    \<or> ''rand'' \<in> fst ` set (pending_report ! i)
                 then map fst (pending_report ! i)
                 else map fst (pending_report ! i) @ [''rand''])"
    by (rule conjunct2)
  from each [rule_format, OF n(1)]
  have others: "\<forall>f. f \<noteq> ''rand'' \<longrightarrow> map_of (out ! 0) f = map_of (pending_report ! 0) f"
    by (rule conjunct1)
  from each [rule_format, OF n(2)]
  have "lookup_stratum [''site''] site_index (pending_report ! 1) = None
               \<longrightarrow> out ! 1 = pending_report ! 1
                 \<and> (map_of (pending_report ! 1) ''rand'' = Some (Code (- 1))
                      \<longrightarrow> map_of (nullify_record (out ! 1)) ''rand'' = Some None)"
    by (rule conjunct2 [THEN conjunct1])
  with look unset have second: "out ! 1 = pending_report ! 1"
    "map_of (nullify_record (out ! 1)) ''rand'' = Some None"
    by blast+
  from run out len second others show ?thesis by blast
qed

text \<open>
  The same at the level of \<^verbatim>\<open>main\<close>: when the run returns, it returns one record per
  subject, and in every record a field other than the randomized field holds what line
  269 and lines 278 to 281 make of its own downloaded value: the integer it spells, or
  null when it is empty or spells -1.
\<close>

lemma sequence_sum_Inr:
  "sequence_sum xs = Inr ys \<Longrightarrow> xs = map Inr ys"
proof (induction xs arbitrary: ys)
  case Nil
  then show ?case by simp
next
  case (Cons x xs)
  then show ?case by (auto split: sum.splits)
qed

lemma normalise_record_Cons:
  "normalise_record ((key, v) # input_dict)
     = (case normalise_value v of
          Inl e \<Rightarrow> Inl e
        | Inr n \<Rightarrow> (case normalise_record input_dict of
                      Inl e \<Rightarrow> Inl e
                    | Inr r \<Rightarrow> Inr ((key, n) # r)))"
  by (simp add: normalise_record_def split: sum.splits)

lemma normalise_record_lookup:
  assumes "normalise_record input_dict = Inr r"
  shows "(map_of input_dict f = None \<longrightarrow> map_of r f = None)
       \<and> (\<forall>v. map_of input_dict f = Some v
             \<longrightarrow> (\<exists>n. normalise_value v = Inr n \<and> map_of r f = Some n))"
  using assms
proof (induction input_dict arbitrary: r)
  case Nil
  then show ?case by (simp add: normalise_record_def)
next
  case (Cons p input_dict)
  obtain key v where p: "p = (key, v)" by (cases p)
  from Cons.prems obtain n r' where n: "normalise_value v = Inr n"
    and r': "normalise_record input_dict = Inr r'" and r: "r = (key, n) # r'"
    by (auto simp: p normalise_record_Cons split: sum.splits)
  from Cons.IH [OF r'] n show ?case by (simp add: p r)
qed

lemma normalise_report_nth:
  assumes "normalise_report eligibility_report = Inr nrep"
  shows "length nrep = length eligibility_report"
    and "i < length eligibility_report \<Longrightarrow> normalise_record (eligibility_report ! i) = Inr (nrep ! i)"
proof -
  from sequence_sum_Inr [OF assms [unfolded normalise_report_def]]
  have eq: "map normalise_record eligibility_report = map Inr nrep" .
  then show len: "length nrep = length eligibility_report" by (metis length_map)
  assume i: "i < length eligibility_report"
  from eq have "map normalise_record eligibility_report ! i = map Inr nrep ! i" by simp
  with i len show "normalise_record (eligibility_report ! i) = Inr (nrep ! i)" by simp
qed

lemma main_core_Inr:
  assumes "main_core cfg eligibility_report original_codebook allocation_df g = Inr out"
  shows "\<exists>nrep less_criteria probability_dict out' g'.
           normalise_report eligibility_report = Inr nrep
         \<and> randomization_step cfg nrep less_criteria probability_dict g = Inr (out', g')
         \<and> out = map nullify_record out'"
  using assms unfolding main_core_def Let_def
  by (auto split: if_splits sum.splits prod.splits)

lemma main_core_other_fields:
  assumes run: "main_core cfg eligibility_report original_codebook allocation_df g = Inr out"
    and i: "i < length eligibility_report" and f: "f \<noteq> randomized_field cfg"
  shows "length out = length eligibility_report
       \<and> (map_of (eligibility_report ! i) f = None \<longrightarrow> map_of (out ! i) f = None)
       \<and> (\<forall>v. map_of (eligibility_report ! i) f = Some v
             \<longrightarrow> (\<exists>n. normalise_value v = Inr n
                    \<and> map_of (out ! i) f = Some (if n = Code (- 1) then None else Some n)))"
proof -
  from main_core_Inr [OF run] obtain nrep less_criteria probability_dict out' g' where
    norm: "normalise_report eligibility_report = Inr nrep"
    and step: "randomization_step cfg nrep less_criteria probability_dict g = Inr (out', g')"
    and out: "out = map nullify_record out'"
    by blast
  note len1 = normalise_report_nth(1) [OF norm]
  note rec = normalise_report_nth(2) [OF norm i]
  from randomization_step_length [OF step] have len2: "length out' = length nrep" .
  from i len1 have i': "i < length nrep" by simp
  from randomization_step_nth [OF step i']
  have "out' ! i = nrep ! i \<or> (\<exists>t. out' ! i = AList.update (randomized_field cfg) t (nrep ! i))"
    by (cases "lookup_stratum less_criteria probability_dict (nrep ! i)") auto
  with f have same: "map_of (out' ! i) f = map_of (nrep ! i) f"
    by (auto simp: update_conv')
  from i len1 len2 out have "map_of (out ! i) f = map_of (nullify_record (out' ! i)) f" by simp
  then have look: "map_of (out ! i) f
      = map_option (\<lambda>v. if v = Code (- 1) then None else Some v) (map_of (nrep ! i) f)"
    by (simp add: map_of_nullify_record same)
  from out len1 len2 have "length out = length eligibility_report" by simp
  moreover have "map_of (eligibility_report ! i) f = None \<longrightarrow> map_of (out ! i) f = None"
    using normalise_record_lookup [OF rec, of f] by (simp add: look)
  moreover have "\<forall>v. map_of (eligibility_report ! i) f = Some v
             \<longrightarrow> (\<exists>n. normalise_value v = Inr n
                    \<and> map_of (out ! i) f = Some (if n = Code (- 1) then None else Some n))"
  proof (rule allI, rule impI)
    fix v assume "map_of (eligibility_report ! i) f = Some v"
    with normalise_record_lookup [OF rec, of f] obtain n where
      "normalise_value v = Inr n" "map_of (nrep ! i) f = Some n" by blast
    then show "\<exists>n. normalise_value v = Inr n
                    \<and> map_of (out ! i) f = Some (if n = Code (- 1) then None else Some n)"
      by (simp add: look)
  qed
  ultimately show ?thesis by blast
qed

section \<open>Subjects without historical precedent\<close>

text \<open>
  C5, as stated, fails: the program keeps no list of unassigned identifiers. All that
  \<^verbatim>\<open>main\<close> hands on is the list of subject records; subjects 2 and 3, whose strata have
  no precedent, are in it like subject 1, with the randomized field null.
\<close>

theorem run_returns_subject_records_only:
  "main_core example_cfg pending_strings example_codebook main_table (\<lambda>_. 1 / 2)
   = Inr [[(''record_id'', Some (Code 1)), (''site'', Some (Code 1)), (''rand'', Some (Code 1))],
          [(''record_id'', Some (Code 2)), (''site'', Some (Code 2)), (''rand'', None)],
          [(''record_id'', Some (Code 3)), (''site'', None), (''rand'', None)]]"
  by code_simp

text \<open>
  C5, amended. A pending subject whose record has every criterion and whose stratum key
  is not in the Probability Index gets no assignment and is not dropped: its record is
  returned unchanged, at its own position in the list.
\<close>

theorem unmatched_subject_is_returned_unassigned:
  assumes run: "randomization_step cfg eligibility_report less_criteria probability_dict g = Inr (out, g')"
    and i: "i < length eligibility_report"
    and complete: "list_all (\<lambda>key. key \<in> fst ` set (eligibility_report ! i)) less_criteria"
    and absent: "map_of probability_dict
                   (map (\<lambda>key. the (map_of (eligibility_report ! i) key)) less_criteria) = None"
  shows "i < length out \<and> out ! i = eligibility_report ! i
       \<and> map_of (out ! i) (randomized_field cfg)
           = map_of (eligibility_report ! i) (randomized_field cfg)"
proof -
  from complete absent
  have "lookup_stratum less_criteria probability_dict (eligibility_report ! i) = None"
    by (simp add: lookup_stratum_def)
  with randomization_step_nth [OF run i] have "out ! i = eligibility_report ! i" by simp
  moreover from randomization_step_length [OF run] i have "i < length out" by simp
  ultimately show ?thesis by simp
qed

text \<open>
  The third subject of \<open>pending_report\<close> has the sentinel -1 for its site; the key is
  not in \<open>site_index\<close> and the record comes back as it was.
\<close>

theorem unmatched_subject_is_returned_unassigned_witness:
  "\<exists>out g'. randomization_step example_cfg pending_report [''site''] site_index (\<lambda>_. 1 / 2) = Inr (out, g')
      \<and> 2 < length out \<and> out ! 2 = pending_report ! 2
      \<and> map_of (out ! 2) ''rand'' = Some (Code (- 1))"
proof -
  have "map_sum id fst (randomization_step example_cfg pending_report [''site''] site_index (\<lambda>_. 1 / 2))
     = Inr [[(''record_id'', Code 1), (''site'', Code 1), (''rand'', Code 1)],
            [(''record_id'', Code 2), (''site'', Code 2), (''rand'', Code (- 1))],
            [(''record_id'', Code 3), (''site'', Code (- 1)), (''rand'', Code (- 1))]]"
    by code_simp
  then obtain out g' where
    run: "randomization_step example_cfg pending_report [''site''] site_index (\<lambda>_. 1 / 2) = Inr (out, g')"
    by (cases "randomization_step example_cfg pending_report [''site''] site_index (\<lambda>_. 1 / 2)") auto
  have rf: "randomized_field example_cfg = ''rand''" by (simp add: example_cfg_def)
  have i: "2 < length pending_report" by (simp add: pending_report_def)
  have complete: "list_all (\<lambda>key. key \<in> fst ` set (pending_report ! 2)) [''site'']"
    by (simp add: pending_report_def)
  have absent: "map_of site_index (map (\<lambda>key. the (map_of (pending_report ! 2) key)) [''site'']) = None"
    by (simp add: pending_report_def site_index_def)
  have unset: "map_of (pending_report ! 2) ''rand'' = Some (Code (- 1))"
    by (simp add: pending_report_def)
  from unmatched_subject_is_returned_unassigned [OF run i complete absent, unfolded rf] unset
  have "2 < length out \<and> out ! 2 = pending_report ! 2 \<and> map_of (out ! 2) ''rand'' = Some (Code (- 1))"
    by simp
  with run show ?thesis by blast
qed

section \<open>Determinism for a fixed random source\<close>

text \<open>
  C8. \<^verbatim>\<open>randomization_step\<close> reads the random source once for each subject that finds
  its distribution and not otherwise. Two runs over the same subjects, criteria and
  index whose random sources agree on that many first numbers return the same records,
  or fail with the same exception; in particular two runs with the same random source.
\<close>

theorem same_draws_same_assignments:
  assumes "\<forall>n < length (filter (\<lambda>r. lookup_stratum less_criteria probability_dict r \<noteq> None)
                         eligibility_report). g1 n = g2 n"
  shows "map_sum id fst (randomization_step cfg eligibility_report less_criteria probability_dict g1)
       = map_sum id fst (randomization_step cfg eligibility_report less_criteria probability_dict g2)"
  using assms
proof (induction eligibility_report arbitrary: g1 g2)
  case Nil
  show ?case by simp
next
  case (Cons r report)
  show ?case
  proof (cases "lookup_stratum less_criteria probability_dict r")
    case None
    with Cons.prems have "\<forall>n < length (filter (\<lambda>r. lookup_stratum less_criteria probability_dict r \<noteq> None)
                         report). g1 n = g2 n" by simp
    from Cons.IH [OF this] None show ?thesis
      by (auto split: sum.splits prod.splits)
  next
    case (Some mv)
    with Cons.prems have first: "g1 0 = g2 0"
      and "\<forall>n < length (filter (\<lambda>r. lookup_stratum less_criteria probability_dict r \<noteq> None)
                         report). snd (random g1) n = snd (random g2) n"
      by (auto simp: random_def)
    from Cons.IH [OF this(2)] first Some show ?thesis
      by (auto simp: random_def split: sum.splits prod.splits)
  qed
qed

text \<open>
  One subject of \<open>pending_report\<close> finds its distribution, so \<open>source_a\<close> and
  \<open>source_b\<close>, which agree on their first number only, give the same assignments.
\<close>

theorem same_draws_same_assignments_witness:
  "length (filter (\<lambda>r. lookup_stratum [''site''] site_index r \<noteq> None) pending_report) = 1
   \<and> source_a 0 = source_b 0 \<and> source_a 1 \<noteq> source_b 1
   \<and> map_sum id fst (randomization_step example_cfg pending_report [''site''] site_index source_a)
     = map_sum id fst (randomization_step example_cfg pending_report [''site''] site_index source_b)"
proof -
  have one: "length (filter (\<lambda>r. lookup_stratum [''site''] site_index r \<noteq> None) pending_report) = 1"
    by (simp add: pending_report_def site_index_def lookup_stratum_def)
  have first: "source_a 0 = source_b 0" and later: "source_a 1 \<noteq> source_b 1"
    by (simp_all add: source_a_def source_b_def)
  have h: "\<forall>n < length (filter (\<lambda>r. lookup_stratum [''site''] site_index r \<noteq> None) pending_report).
       source_a n = source_b n"
    unfolding one using first by simp
  from one first later same_draws_same_assignments [OF h, where cfg = example_cfg]
  show ?thesis by simp
qed

section \<open>Labels without a code\<close>












section \<open>The Codebook Translator on labels that contain a comma\<close>

text \<open>
  C4. The specification parses a pair as the code before the first comma and, as the
  label, everything after it. \<^verbatim>\<open>convert_codebook\<close> splits the pair at every comma and
  takes the second piece as the label: for the pair \<^verbatim>\<open>1, Yes, definitely\<close> the mapping
  holds the label \<^verbatim>\<open>Yes\<close> and has no entry for \<^verbatim>\<open>Yes, definitely\<close>.
\<close>

theorem convert_codebook_cuts_label_at_second_comma:
  "convert_codebook \<lparr>treatment_field = ''treatment'', randomized_field = ''rand''\<rparr>
     [\<lparr>field_name = ''arm'', field_type = ''radio'',
       select_choices_or_calculations = ''1, Yes, definitely | 0, No''\<rparr>] [''arm'']
   = Inr [(''arm'', [(''Yes'', ''1''), (''No'', ''0'')])]"
  by (simp add: convert_codebook_def field_choices_def approved_field_types_def
        convert_choices_def strip_def is_space_def)

section \<open>Label round trip\<close>

text \<open>
  C9. The entry \<^verbatim>\<open>1, Yes, definitely\<close> does not survive the round trip: the mapping has
  no code for the label \<^verbatim>\<open>Yes, definitely\<close>, and the only label that code 1 stands for
  is \<^verbatim>\<open>Yes\<close>. This is the defect of C4.
\<close>

theorem label_with_comma_does_not_round_trip:
  "convert_choices ''1, Yes, definitely | 0, No'' = Inr [(''Yes'', ''1''), (''No'', ''0'')]
   \<and> map_of [(''Yes'', ''1''), (''No'', ''0'')] ''Yes, definitely'' = None
   \<and> map_of [(''Yes'', ''1''), (''No'', ''0'')] ''Yes'' = Some ''1''"
  by (simp add: convert_choices_def strip_def is_space_def)

text \<open>
  Without that defect in play the round trip holds: when every pair of a specification
  has exactly one comma and no code stands for two different labels, each label of the
  specification is encoded, and its code belongs to no other label of the mapping.
\<close>

lemma convert_pairs_fold:
  "\<forall>p\<in>set pairs. 2 \<le> length (split_on CHR '','' p) \<Longrightarrow>
   convert_pairs pairs d
     = Inr (fold (\<lambda>p. AList.update (strip (split_on CHR '','' p ! 1)) (strip (split_on CHR '','' p ! 0)))
              pairs d)"
proof (induction pairs arbitrary: d)
  case Nil
  show ?case by simp
next
  case (Cons p pairs)
  then have "\<not> length (split_on CHR '','' p) < 2" by auto
  with Cons show ?case by (simp add: Let_def)
qed

lemma label_round_trip_without_commas:
  fixes spec :: string
  defines "pairs \<equiv> split_on CHR ''|'' spec"
  defines "code \<equiv> (\<lambda>p. strip (split_on CHR '','' p ! 0))"
  defines "label \<equiv> (\<lambda>p. strip (split_on CHR '','' p ! 1))"
  assumes two: "\<forall>p\<in>set pairs. length (split_on CHR '','' p) = 2"
    and inj: "\<forall>p\<in>set pairs. \<forall>q\<in>set pairs. code p = code q \<longrightarrow> label p = label q"
  shows "\<exists>d. convert_choices spec = Inr d
           \<and> (\<forall>p\<in>set pairs. \<exists>c. map_of d (label p) = Some c
                                   \<and> (\<forall>l. map_of d l = Some c \<longrightarrow> l = label p))"
proof -
  define d where "d = fold (\<lambda>p. AList.update (label p) (code p)) pairs []"
  from two have "\<forall>p\<in>set pairs. 2 \<le> length (split_on CHR '','' p)" by simp
  from convert_pairs_fold [OF this, of "[]"]
  have run: "convert_choices spec = Inr d"
    by (simp add: convert_choices_def pairs_def d_def label_def code_def)
  have look: "map_of d l = (case filter (\<lambda>p. label p = l) (rev pairs) of
                              [] \<Rightarrow> None | q # _ \<Rightarrow> Some (code q))" for l
    by (simp add: d_def map_of_fold_update split: list.splits)
  have "\<exists>c. map_of d (label p) = Some c \<and> (\<forall>l. map_of d l = Some c \<longrightarrow> l = label p)"
    if p: "p \<in> set pairs" for p
  proof -
    from p have "filter (\<lambda>q. label q = label p) (rev pairs) \<noteq> []"
      by (auto simp: filter_empty_conv)
    then obtain q qs where q: "filter (\<lambda>q. label q = label p) (rev pairs) = q # qs"
      by (cases "filter (\<lambda>q. label q = label p) (rev pairs)") auto
    then have "q \<in> set (filter (\<lambda>q. label q = label p) (rev pairs))" by simp
    then have q_in: "q \<in> set pairs" and q_label: "label q = label p" by simp_all
    from q have enc: "map_of d (label p) = Some (code q)" by (simp add: look)
    have "l = label p" if l: "map_of d l = Some (code q)" for l
    proof -
      from l obtain q' qs' where q': "filter (\<lambda>p. label p = l) (rev pairs) = q' # qs'"
        and c: "code q' = code q"
        by (auto simp: look split: list.splits)
      from q' have "q' \<in> set (filter (\<lambda>p. label p = l) (rev pairs))" by simp
      then have "q' \<in> set pairs" "label q' = l" by simp_all
      with inj q_in c q_label show ?thesis by metis
    qed
    with enc show ?thesis by blast
  qed
  with run show ?thesis by blast
qed

end
